theory Spec2Isabelle
  imports Main
begin

section \<open>The container I/O of jvol (src/jvol/io.py)\<close>

text \<open>
  The module \<^verbatim>\<open>jvol/io.py\<close> writes and reads the native \<^verbatim>\<open>.jvol\<close> container and
  dispatches between it and a generic image reader and writer. The functions it
  imports from \<^verbatim>\<open>jvol.casting\<close>, \<^verbatim>\<open>jvol.encoding\<close>, \<^verbatim>\<open>jvol.decoding\<close> and
  \<^verbatim>\<open>jvol.huffman\<close> are not part of the sources at hand: the functions of this module
  take them as the fields of a record of collaborators.
\<close>

subsection \<open>Errors\<close>

datatype error =
    ValueError
  | TypeError
  | KeyError
  | FileNotFoundError
  | AssertionError
  | UsageError
  | FormatError
  | StreamError

subsection \<open>Element types and arrays\<close>

text \<open>
  The integer element types of NumPy. Floating-point samples are outside this model;
  the affine transform, on which no arithmetic is done here, keeps an abstract
  element type \<open>'f\<close>.
\<close>

datatype dtype = UInt8 | UInt16 | UInt32 | UInt64 | Int8 | Int16 | Int32 | Int64

fun bits :: "dtype \<Rightarrow> nat" where
  "bits UInt8 = 8"
| "bits UInt16 = 16"
| "bits UInt32 = 32"
| "bits UInt64 = 64"
| "bits Int8 = 8"
| "bits Int16 = 16"
| "bits Int32 = 32"
| "bits Int64 = 64"

fun is_signed :: "dtype \<Rightarrow> bool" where
  "is_signed UInt8 = False"
| "is_signed UInt16 = False"
| "is_signed UInt32 = False"
| "is_signed UInt64 = False"
| "is_signed Int8 = True"
| "is_signed Int16 = True"
| "is_signed Int32 = True"
| "is_signed Int64 = True"

definition dtype_min :: "dtype \<Rightarrow> int" where
  "dtype_min dt = (if is_signed dt then - (2 ^ (bits dt - 1)) else 0)"

definition dtype_max :: "dtype \<Rightarrow> int" where
  "dtype_max dt = (if is_signed dt then 2 ^ (bits dt - 1) - 1 else 2 ^ bits dt - 1)"

definition representable :: "dtype \<Rightarrow> int \<Rightarrow> bool" where
  "representable dt v = (dtype_min dt \<le> v \<and> v \<le> dtype_max dt)"

text \<open>
  Fixed-width integer arithmetic and C-style casts keep the low \<open>bits dt\<close> bits:
  the value modulo \<open>2 ^ bits dt\<close>, read as two's complement for a signed type.
\<close>

definition wrap :: "dtype \<Rightarrow> int \<Rightarrow> int" where
  "wrap dt v =
     (if is_signed dt
      then (v + 2 ^ (bits dt - 1)) mod 2 ^ bits dt - 2 ^ (bits dt - 1)
      else v mod 2 ^ bits dt)"

text \<open>
  An array: its shape, its element type and its elements in row-major order.
  A NumPy scalar is the array of shape \<open>[]\<close> with one element.
\<close>

record ndarray =
  shape :: "nat list"
  dtype :: dtype
  elements :: "int list"

definition well_formed :: "ndarray \<Rightarrow> bool" where
  "well_formed a =
     (length (elements a) = prod_list (shape a) \<and>
      list_all (representable (dtype a)) (elements a))"

definition scalar :: "dtype \<Rightarrow> int \<Rightarrow> ndarray" where
  "scalar dt v = \<lparr>shape = [], dtype = dt, elements = [v]\<rparr>"

text \<open>\<^verbatim>\<open>array.min()\<close> and \<^verbatim>\<open>array.max()\<close>: a ValueError on an array of size zero.\<close>

definition array_min :: "ndarray \<Rightarrow> error + ndarray" where
  "array_min a =
     (if elements a = [] then Inl ValueError
      else Inr (scalar (dtype a) (Min (set (elements a)))))"

definition array_max :: "ndarray \<Rightarrow> error + ndarray" where
  "array_max a =
     (if elements a = [] then Inl ValueError
      else Inr (scalar (dtype a) (Max (set (elements a)))))"

text \<open>
  The difference of two NumPy scalars of one integer type is a scalar of that type:
  it wraps around on overflow.
\<close>

definition scalar_sub :: "ndarray \<Rightarrow> ndarray \<Rightarrow> ndarray" where
  "scalar_sub x y = scalar (dtype x) (wrap (dtype x) (hd (elements x) - hd (elements y)))"

text \<open>\<^verbatim>\<open>np.array(t, dtype=np.uint16)\<close> of a tuple of sizes, as a cast to 16 bits.\<close>

definition uint16_array :: "nat list \<Rightarrow> ndarray" where
  "uint16_array t =
     \<lparr>shape = [length t], dtype = UInt16, elements = map (\<lambda>n. wrap UInt16 (int n)) t\<rparr>"

subsection \<open>The Huffman coding object\<close>

text \<open>
  \<^verbatim>\<open>HuffmanCoding\<close> of \<^verbatim>\<open>jvol.huffman\<close>, as far as this module reads and builds it:
  an object with six fields (the field \<^verbatim>\<open>values\<close> is \<open>code_values\<close> here).
\<close>

record HuffmanCoding =
  data :: ndarray
  symbols_values :: ndarray
  symbols_counts :: ndarray
  bitsizes :: ndarray
  code_values :: ndarray
  eof_symbol :: ndarray

subsection \<open>Format keys\<close>

datatype FormatKeys =
    IJK_TO_RAS
  | QUANTIZATION_BLOCK
  | DC_RLE_VALUES
  | DC_RLE_COUNTS
  | AC_RLE_VALUES
  | AC_RLE_COUNTS
  | AC_HUFFMAN_EOF_SYMBOL
  | AC_HUFFMAN_SYMBOLS
  | AC_HUFFMAN_BITS
  | AC_HUFFMAN_VALUES
  | AC_HUFFMAN_ENCODING
  | DTYPE
  | INTERCEPT
  | SLOPE
  | SHAPE

text \<open>
  The \<^verbatim>\<open>.value\<close> of a key. \<^verbatim>\<open>FormatKeys\<close> is a \<^verbatim>\<open>str\<close> enumeration, so a member
  used as a dictionary key is its value.
\<close>

fun key_value :: "FormatKeys \<Rightarrow> string" where
  "key_value IJK_TO_RAS = ''ijk_to_ras''"
| "key_value QUANTIZATION_BLOCK = ''quantization_block''"
| "key_value DC_RLE_VALUES = ''dc_rle_values''"
| "key_value DC_RLE_COUNTS = ''dc_rle_counts''"
| "key_value AC_RLE_VALUES = ''ac_rle_values''"
| "key_value AC_RLE_COUNTS = ''ac_rle_counts''"
| "key_value AC_HUFFMAN_EOF_SYMBOL = ''ac_huffman_eof_symbol''"
| "key_value AC_HUFFMAN_SYMBOLS = ''ac_huffman_symbols''"
| "key_value AC_HUFFMAN_BITS = ''ac_huffman_bits''"
| "key_value AC_HUFFMAN_VALUES = ''ac_huffman_values''"
| "key_value AC_HUFFMAN_ENCODING = ''ac_huffman_encoding''"
| "key_value DTYPE = ''dtype''"
| "key_value INTERCEPT = ''intercept''"
| "key_value SLOPE = ''slope''"
| "key_value SHAPE = ''shape''"

subsection \<open>Containers, files and paths\<close>

text \<open>
  What \<^verbatim>\<open>np.savez\<close> stores under one name: an integer array, the floating-point
  matrix of the transform, or the zero-dimensional \<^verbatim>\<open>np.empty((), dtype)\<close>, whose only
  defined content is its element type.
\<close>

datatype 'f npvalue =
    Arr ndarray
  | Mat "'f list list"
  | Empty0 dtype

type_synonym 'f npz = "(string \<times> 'f npvalue) list"

datatype 'f stored_file = Npz "'f npz" | Foreign string

text \<open>A path is the list of its parts, as \<^verbatim>\<open>pathlib\<close> keeps it.\<close>

type_synonym path = "string list"

type_synonym 'f filesystem = "path \<Rightarrow> 'f stored_file option"

fun rfind :: "char \<Rightarrow> string \<Rightarrow> nat option" where
  "rfind c [] = None"
| "rfind c (x # xs) =
     (case rfind c xs of
        Some i \<Rightarrow> Some (Suc i)
      | None \<Rightarrow> if x = c then Some 0 else None)"

definition name :: "path \<Rightarrow> string" where
  "name p = (if p = [] then [] else last p)"

text \<open>
  \<^verbatim>\<open>PurePath.suffix\<close>: the part of the final component from its last dot on, when that
  dot is neither its first nor its last character.
\<close>

definition suffix :: "path \<Rightarrow> string" where
  "suffix p =
     (case rfind CHR ''.'' (name p) of
        None \<Rightarrow> []
      | Some i \<Rightarrow> if 0 < i \<and> i < length (name p) - 1 then drop i (name p) else [])"

subsection \<open>Lookup in a loaded container\<close>

definition getitem :: "'f npz \<Rightarrow> string \<Rightarrow> error + 'f npvalue" where
  "getitem loaded k = (case map_of loaded k of None \<Rightarrow> Inl KeyError | Some v \<Rightarrow> Inr v)"

definition get_array :: "'f npz \<Rightarrow> string \<Rightarrow> error + ndarray" where
  "get_array loaded k =
     (case getitem loaded k of
        Inl e \<Rightarrow> Inl e
      | Inr (Arr a) \<Rightarrow> Inr a
      | Inr _ \<Rightarrow> Inl TypeError)"

definition get_matrix :: "'f npz \<Rightarrow> string \<Rightarrow> error + 'f list list" where
  "get_matrix loaded k =
     (case getitem loaded k of
        Inl e \<Rightarrow> Inl e
      | Inr (Mat m) \<Rightarrow> Inr m
      | Inr _ \<Rightarrow> Inl TypeError)"

text \<open>\<^verbatim>\<open>loaded[key].dtype\<close>; the element type of the transform is outside \<^typ>\<open>dtype\<close>.\<close>

definition get_dtype :: "'f npz \<Rightarrow> string \<Rightarrow> error + dtype" where
  "get_dtype loaded k =
     (case getitem loaded k of
        Inl e \<Rightarrow> Inl e
      | Inr (Arr a) \<Rightarrow> Inr (dtype a)
      | Inr (Empty0 dt) \<Rightarrow> Inr dt
      | Inr (Mat m) \<Rightarrow> Inl TypeError)"

text \<open>\<^verbatim>\<open>np.load(path)\<close>.\<close>

definition np_load :: "'f filesystem \<Rightarrow> path \<Rightarrow> error + 'f npz" where
  "np_load fs p =
     (case fs p of
        None \<Rightarrow> Inl FileNotFoundError
      | Some (Npz d) \<Rightarrow> Inr d
      | Some (Foreign _) \<Rightarrow> Inl ValueError)"

subsection \<open>The collaborators\<close>

text \<open>
  The functions this module calls and does not define: \<^verbatim>\<open>get_quantization_table\<close> and
  \<^verbatim>\<open>encode_array\<close> (\<^verbatim>\<open>jvol.encoding\<close>), \<^verbatim>\<open>HuffmanCoding.from_rle\<close> (\<^verbatim>\<open>jvol.huffman\<close>),
  \<^verbatim>\<open>to_min_scalar_type\<close> (\<^verbatim>\<open>jvol.casting\<close>) and \<^verbatim>\<open>decode_array\<close> (\<^verbatim>\<open>jvol.decoding\<close>).
  Each may raise. \<^verbatim>\<open>open_itk_image\<close> and \<^verbatim>\<open>save_itk_image\<close> consist of calls into the
  \<^verbatim>\<open>itk\<close> library and \<^verbatim>\<open>jvol.transforms\<close> only, and are fields as well.
\<close>

record 'f collaborators =
  get_quantization_table :: "int list \<Rightarrow> int \<Rightarrow> error + ndarray"
  encode_array :: "ndarray \<Rightarrow> ndarray \<Rightarrow> error + ndarray \<times> ndarray \<times> ndarray \<times> ndarray"
  from_rle :: "ndarray \<Rightarrow> ndarray \<Rightarrow> error + HuffmanCoding"
  to_min_scalar_type :: "ndarray \<Rightarrow> error + ndarray"
  decode_array ::
    "ndarray \<Rightarrow> ndarray \<Rightarrow> ndarray \<Rightarrow> ndarray \<Rightarrow> ndarray \<Rightarrow> ndarray \<Rightarrow> dtype \<Rightarrow>
     HuffmanCoding \<Rightarrow> error + ndarray"
  open_itk_image :: "path \<Rightarrow> 'f filesystem \<Rightarrow> error + ndarray \<times> 'f list list"
  save_itk_image ::
    "ndarray \<Rightarrow> 'f list list \<Rightarrow> path \<Rightarrow> 'f filesystem \<Rightarrow> (error + unit) \<times> 'f filesystem"

subsection \<open>Writing the container\<close>

text \<open>Sequencing of calls that may raise: the first error ends the computation.\<close>

definition and_then :: "error + 'a \<Rightarrow> ('a \<Rightarrow> error + 'b) \<Rightarrow> error + 'b" where
  "and_then r f = (case r of Inl e \<Rightarrow> Inl e | Inr x \<Rightarrow> f x)"

text \<open>
  The body of \<^verbatim>\<open>save_jvol\<close> up to and including the dictionary \<^verbatim>\<open>save_dict\<close>, in the
  order of the source; the first call that raises ends it.
\<close>

definition save_dict ::
  "'f collaborators \<Rightarrow> ndarray \<Rightarrow> 'f list list \<Rightarrow> int \<Rightarrow> int \<Rightarrow> error + 'f npz" where
  "save_dict M array ijk_to_ras block_size quality =
     and_then (get_quantization_table M [block_size, block_size, block_size] quality)
       (\<lambda>quantization_table.
     and_then (array_min array) (\<lambda>intercept.
     and_then (array_max array) (\<lambda>amax.
     and_then (encode_array M array quantization_table) (\<lambda>(dc_rle_values, dc_rle_counts, ac_rle_values, ac_rle_counts).
     and_then (from_rle M ac_rle_values ac_rle_counts) (\<lambda>huffman.
     and_then (to_min_scalar_type M dc_rle_values) (\<lambda>dc_rle_values_min.
       Inr [(key_value IJK_TO_RAS, Mat (take 3 ijk_to_ras)),
            (key_value QUANTIZATION_BLOCK, Arr quantization_table),
            (key_value DC_RLE_VALUES, Arr dc_rle_values_min),
            (key_value DC_RLE_COUNTS, Arr dc_rle_counts),
            (key_value DTYPE, Empty0 (dtype array)),
            (key_value INTERCEPT, Arr intercept),
            (key_value SLOPE, Arr (scalar_sub amax intercept)),
            (key_value SHAPE, Arr (uint16_array (shape array))),
            (''huffman_eof_symbol'', Arr (eof_symbol huffman)),
            (''huffman_symbols_values'', Arr (symbols_values huffman)),
            (''huffman_symbols_counts'', Arr (symbols_counts huffman)),
            (''huffman_bitsizes'', Arr (bitsizes huffman)),
            (''huffman_values'', Arr (code_values huffman)),
            (''huffman_data'', Arr (data huffman))]))))))"

text \<open>
  \<^verbatim>\<open>save_jvol\<close>: the file is opened and written once \<^verbatim>\<open>save_dict\<close> is built. The result
  is the outcome of the call and the file system after it.
\<close>

definition save_jvol ::
  "'f collaborators \<Rightarrow> ndarray \<Rightarrow> 'f list list \<Rightarrow> path \<Rightarrow> int \<Rightarrow> int \<Rightarrow> 'f filesystem \<Rightarrow>
   (error + unit) \<times> 'f filesystem" where
  "save_jvol M array ijk_to_ras p block_size quality fs =
     (case save_dict M array ijk_to_ras block_size quality of
        Inl e \<Rightarrow> (Inl e, fs)
      | Inr d \<Rightarrow> (Inr (), fs(p \<mapsto> Npz d)))"

subsection \<open>Reading the container\<close>

text \<open>
  \<^verbatim>\<open>np.vstack((ijk_to_ras, [0, 0, 0, 1]))\<close>: every row of the first argument must have
  the four columns of the appended row.
\<close>

definition fill_ijk_to_ras :: "'f::{zero,one} list list \<Rightarrow> error + 'f list list" where
  "fill_ijk_to_ras ijk_to_ras =
     (let last_row = [0, 0, 0, 1] in
      if list_all (\<lambda>r. length r = length last_row) ijk_to_ras
      then Inr (ijk_to_ras @ [last_row])
      else Inl ValueError)"

text \<open>The six fields of the container from which \<^verbatim>\<open>open_jvol\<close> builds the coding object.\<close>

definition load_huffman :: "'f npz \<Rightarrow> error + HuffmanCoding" where
  "load_huffman loaded =
     and_then (get_array loaded ''huffman_data'') (\<lambda>h_data.
     and_then (get_array loaded ''huffman_symbols_values'') (\<lambda>h_symbols_values.
     and_then (get_array loaded ''huffman_symbols_counts'') (\<lambda>h_symbols_counts.
     and_then (get_array loaded ''huffman_bitsizes'') (\<lambda>h_bitsizes.
     and_then (get_array loaded ''huffman_values'') (\<lambda>h_values.
     and_then (get_array loaded ''huffman_eof_symbol'') (\<lambda>h_eof_symbol.
       Inr \<lparr>data = h_data, symbols_values = h_symbols_values,
            symbols_counts = h_symbols_counts, bitsizes = h_bitsizes,
            code_values = h_values, eof_symbol = h_eof_symbol\<rparr>))))))"

definition open_jvol ::
  "'f::{zero,one} collaborators \<Rightarrow> path \<Rightarrow> 'f filesystem \<Rightarrow> error + ndarray \<times> 'f list list" where
  "open_jvol M p fs =
     and_then (np_load fs p) (\<lambda>loaded.
     and_then (get_matrix loaded (key_value IJK_TO_RAS)) (\<lambda>m.
     and_then (fill_ijk_to_ras m) (\<lambda>ijk_to_ras.
     and_then (get_array loaded (key_value QUANTIZATION_BLOCK)) (\<lambda>quantization_block.
     and_then (load_huffman loaded) (\<lambda>huffman_coding.
     and_then (get_array loaded (key_value DC_RLE_VALUES)) (\<lambda>dc_rle_values.
     and_then (get_array loaded (key_value DC_RLE_COUNTS)) (\<lambda>dc_rle_counts.
     and_then (get_array loaded (key_value SHAPE)) (\<lambda>target_shape.
     and_then (get_array loaded (key_value INTERCEPT)) (\<lambda>intercept.
     and_then (get_array loaded (key_value SLOPE)) (\<lambda>slope.
     and_then (get_dtype loaded (key_value DTYPE)) (\<lambda>dt.
     and_then (decode_array M dc_rle_values dc_rle_counts quantization_block target_shape
                 intercept slope dt huffman_coding) (\<lambda>array.
       Inr (array, ijk_to_ras)))))))))))))"

subsection \<open>Dispatch on the extension\<close>

definition open_image ::
  "'f::{zero,one} collaborators \<Rightarrow> path \<Rightarrow> 'f filesystem \<Rightarrow> error + ndarray \<times> 'f list list" where
  "open_image M p fs =
     (if suffix p = ''.jvol'' then open_jvol M p fs else open_itk_image M p fs)"

text \<open>
  The call \<^verbatim>\<open>save_jvol(array, ijk_to_ras, path, **kwargs)\<close>: the keywords bind the
  parameters \<^verbatim>\<open>block_size\<close> (default 4) and \<^verbatim>\<open>quality\<close> (default 60) of the
  signature; a keyword that names one of the three positional arguments or no
  parameter at all is a TypeError. The dictionary of keywords is an association list
  with distinct keys.
\<close>

type_synonym kwargs = "(string \<times> int) list"

definition call_save_jvol ::
  "'f collaborators \<Rightarrow> ndarray \<Rightarrow> 'f list list \<Rightarrow> path \<Rightarrow> kwargs \<Rightarrow> 'f filesystem \<Rightarrow>
   (error + unit) \<times> 'f filesystem" where
  "call_save_jvol M array ijk_to_ras p kw fs =
     (if list_all (\<lambda>k. k = ''block_size'' \<or> k = ''quality'') (map fst kw)
      then save_jvol M array ijk_to_ras p
             (case map_of kw ''block_size'' of None \<Rightarrow> 4 | Some b \<Rightarrow> b)
             (case map_of kw ''quality'' of None \<Rightarrow> 60 | Some q \<Rightarrow> q) fs
      else (Inl TypeError, fs))"

definition save_image ::
  "'f collaborators \<Rightarrow> ndarray \<Rightarrow> 'f list list \<Rightarrow> path \<Rightarrow> kwargs \<Rightarrow> 'f filesystem \<Rightarrow>
   (error + unit) \<times> 'f filesystem" where
  "save_image M array ijk_to_ras p kw fs =
     (if suffix p = ''.jvol'' then call_save_jvol M array ijk_to_ras p kw fs
      else save_itk_image M array ijk_to_ras p fs)"

section \<open>The codec the container relies on\<close>

text \<open>
  The modules \<^verbatim>\<open>jvol.encoding\<close>, \<^verbatim>\<open>jvol.decoding\<close>, \<^verbatim>\<open>jvol.casting\<close> and
  \<^verbatim>\<open>jvol.huffman\<close> are described by the specification only. The definitions of this
  section follow its words as far as they fix the shape, the element type and the
  failures of the codec. What it leaves open (the divisors, the quantised
  coefficients, the entropy coder and the reconstructed samples) is a record of
  details.
\<close>

record details =
  divisors :: "nat list \<Rightarrow> int \<Rightarrow> int list"
  dc_value :: "ndarray \<Rightarrow> ndarray \<Rightarrow> nat \<Rightarrow> int"
  ac_values :: "ndarray \<Rightarrow> ndarray \<Rightarrow> nat \<Rightarrow> int list"
  huffman_build :: "ndarray \<Rightarrow> ndarray \<Rightarrow> error + HuffmanCoding"
  samples ::
    "ndarray \<Rightarrow> ndarray \<Rightarrow> ndarray \<Rightarrow> nat list \<Rightarrow> ndarray \<Rightarrow> ndarray \<Rightarrow> HuffmanCoding \<Rightarrow>
     error + int list"

text \<open>
  Modelled from the spec: \<^verbatim>\<open>get_quantization_table\<close> of \<^verbatim>\<open>jvol.encoding\<close>, which is
  missing from the sources. Sections 4.1 and 7: the table has the shape of the block;
  a quality outside 1..100 is a usage error that fails fast and is not clamped; a
  block size that is not positive is a usage error.
\<close>

definition spec_get_quantization_table :: "details \<Rightarrow> int list \<Rightarrow> int \<Rightarrow> error + ndarray" where
  "spec_get_quantization_table D block_shape quality =
     (if quality < 1 \<or> 100 < quality then Inl UsageError
      else if list_ex (\<lambda>d. d \<le> 0) block_shape then Inl UsageError
      else Inr \<lparr>shape = map nat block_shape, dtype = Int64,
                elements = divisors D (map nat block_shape) quality\<rparr>)"

text \<open>
  Modelled from the spec: the run-length encoder of \<^verbatim>\<open>jvol.encoding\<close>, which is missing
  from the sources. Section 4.3: maximal runs of identical consecutive values collapse
  to a value and a count of at least one.
\<close>

fun run_length_encode :: "int list \<Rightarrow> (int \<times> nat) list" where
  "run_length_encode [] = []"
| "run_length_encode (x # xs) =
     (case run_length_encode xs of
        [] \<Rightarrow> [(x, 1)]
      | (y, n) # r \<Rightarrow> if x = y then (y, Suc n) # r else (x, 1) # (y, n) # r)"

text \<open>
  The arrays the encoder returns, before any narrowing: the narrowest width is chosen
  at serialisation time (section 4.3), so the codec hands over 64-bit integers.
\<close>

definition int64_array :: "int list \<Rightarrow> ndarray" where
  "int64_array xs = \<lparr>shape = [length xs], dtype = Int64, elements = xs\<rparr>"

text \<open>The number of blocks along each axis, by ceiling division (section 4.2).\<close>

definition block_grid :: "nat list \<Rightarrow> nat list \<Rightarrow> nat list" where
  "block_grid sh block_shape = map2 (\<lambda>n b. (n + b - 1) div b) sh block_shape"

definition n_blocks :: "nat list \<Rightarrow> nat list \<Rightarrow> nat" where
  "n_blocks sh block_shape = prod_list (block_grid sh block_shape)"

text \<open>
  Modelled from the spec: \<^verbatim>\<open>encode_array\<close> of \<^verbatim>\<open>jvol.encoding\<close>, which is missing from
  the sources. Sections 4.2 and 4.5: a block shape with a dimension that is not
  positive is a usage error; the volume is cut into blocks in raster order, one DC
  value per block and the AC residuals of the blocks concatenated in the same order;
  both streams are run-length encoded.
\<close>

definition spec_encode_array ::
  "details \<Rightarrow> ndarray \<Rightarrow> ndarray \<Rightarrow> error + ndarray \<times> ndarray \<times> ndarray \<times> ndarray" where
  "spec_encode_array D array quantization_table =
     (if list_ex (\<lambda>b. b = 0) (shape quantization_table) then Inl UsageError
      else
        let blocks = [0..<n_blocks (shape array) (shape quantization_table)];
            dc = run_length_encode (map (dc_value D array quantization_table) blocks);
            ac = run_length_encode (concat (map (ac_values D array quantization_table) blocks))
        in Inr (int64_array (map fst dc), int64_array (map (int \<circ> snd) dc),
                int64_array (map fst ac), int64_array (map (int \<circ> snd) ac)))"

text \<open>
  Modelled from the spec: \<^verbatim>\<open>to_min_scalar_type\<close> of \<^verbatim>\<open>jvol.casting\<close>, which is missing
  from the sources. Sections 4.3 and 9: the narrowest integer type that represents
  every value of the array without loss; the values themselves are unchanged.
\<close>

definition narrowest :: "dtype \<Rightarrow> int list \<Rightarrow> dtype" where
  "narrowest dt xs =
     (case filter (\<lambda>t. list_all (representable t) xs)
             [UInt8, Int8, UInt16, Int16, UInt32, Int32, UInt64, Int64] of
        [] \<Rightarrow> dt
      | t # _ \<Rightarrow> t)"

definition spec_to_min_scalar_type :: "ndarray \<Rightarrow> error + ndarray" where
  "spec_to_min_scalar_type a = Inr (a\<lparr>dtype := narrowest (dtype a) (elements a)\<rparr>)"

text \<open>
  Modelled from the spec: \<^verbatim>\<open>decode_array\<close> of \<^verbatim>\<open>jvol.decoding\<close>, which is missing from
  the sources. Sections 3, 4.2, 4.5 and 7: a block shape with a dimension that is not
  positive, run-length arrays of different lengths and a target shape that does not
  fit the stored number of blocks are format errors; the padded shape is found from
  the target shape and the block shape by ceiling division; the reconstructed volume
  is cropped to the target shape, cast into the stored element type and asserted to
  have the target shape exactly.
\<close>

definition spec_decode_array ::
  "details \<Rightarrow> ndarray \<Rightarrow> ndarray \<Rightarrow> ndarray \<Rightarrow> ndarray \<Rightarrow> ndarray \<Rightarrow> ndarray \<Rightarrow> dtype \<Rightarrow>
   HuffmanCoding \<Rightarrow> error + ndarray" where
  "spec_decode_array D dc_rle_values dc_rle_counts quantization_block target_shape
     intercept slope dt huffman_coding =
     (let block_shape = shape quantization_block;
          target = map nat (elements target_shape)
      in
        if list_ex (\<lambda>b. b = 0) block_shape then Inl FormatError
        else if length (elements dc_rle_values) \<noteq> length (elements dc_rle_counts)
          then Inl FormatError
        else if sum_list (elements dc_rle_counts) \<noteq> int (n_blocks target block_shape)
          then Inl FormatError
        else
          and_then (samples D dc_rle_values dc_rle_counts quantization_block target
                      intercept slope huffman_coding)
            (\<lambda>vs.
               let padded_shape = map2 (*) (block_grid target block_shape) block_shape;
                   array = \<lparr>shape = map2 min padded_shape target, dtype = dt,
                            elements = map (wrap dt) vs\<rparr>
               in if shape array = target then Inr array else Inl AssertionError))"

text \<open>The collaborators as the specification describes them.\<close>

definition spec_collaborators ::
  "details \<Rightarrow> (path \<Rightarrow> 'f filesystem \<Rightarrow> error + ndarray \<times> 'f list list) \<Rightarrow>
   (ndarray \<Rightarrow> 'f list list \<Rightarrow> path \<Rightarrow> 'f filesystem \<Rightarrow> (error + unit) \<times> 'f filesystem) \<Rightarrow>
   'f collaborators" where
  "spec_collaborators D itk_read itk_write =
     \<lparr>get_quantization_table = spec_get_quantization_table D,
      encode_array = spec_encode_array D,
      from_rle = huffman_build D,
      to_min_scalar_type = spec_to_min_scalar_type,
      decode_array = spec_decode_array D,
      open_itk_image = itk_read,
      save_itk_image = itk_write\<rparr>"

text \<open>
  A simple instance of the details, for running the codec on concrete inputs: unit
  divisors, the first sample of the volume as every DC value, no residual detail, a
  coding object that stores the run-length arrays as they are, a reconstruction that
  fills the target with the intercept, a generic reader that finds no file and a
  generic writer that leaves a foreign file at the path.
\<close>

definition flat_details :: details where
  "flat_details =
     \<lparr>divisors = (\<lambda>block_shape quality. replicate (prod_list block_shape) 1),
      dc_value = (\<lambda>array table k. hd (elements array)),
      ac_values = (\<lambda>array table k. replicate (prod_list (shape table) - 1) 0),
      huffman_build =
        (\<lambda>v c. Inr \<lparr>data = c, symbols_values = v, symbols_counts = c,
                      bitsizes = int64_array [], code_values = int64_array [],
                      eof_symbol = scalar Int64 (-1)\<rparr>),
      samples =
        (\<lambda>dcv dcc table target intercept slope h.
           Inr (replicate (prod_list target) (hd (elements intercept))))\<rparr>"

definition flat_collaborators :: "int collaborators" where
  "flat_collaborators =
     spec_collaborators flat_details (\<lambda>p fs. Inl FileNotFoundError)
       (\<lambda>a t p fs. (Inr (), fs(p \<mapsto> Foreign ''itk'')))"

text \<open>Concrete inputs: a volume of two samples, the identity transform, an empty disk.\<close>

definition example_volume :: ndarray where
  "example_volume = \<lparr>shape = [2, 1, 1], dtype = Int8, elements = [- 128, 127]\<rparr>"

definition identity_transform :: "int list list" where
  "identity_transform = [[1, 0, 0, 0], [0, 1, 0, 0], [0, 0, 1, 0], [0, 0, 0, 1]]"

definition no_files :: "int filesystem" where
  "no_files = (\<lambda>p. None)"


definition empty_volume :: ndarray where
  "empty_volume = \<lparr>shape = [0, 3, 3], dtype = UInt8, elements = []\<rparr>"

section \<open>The written container\<close>

text \<open>
  The dictionary that \<^verbatim>\<open>save_jvol\<close> hands to \<^verbatim>\<open>np.savez\<close>, as a function of its
  fourteen entries; the lemmas on \<open>save_dict\<close> are stated with it.
\<close>

definition written ::
  "'f list list \<Rightarrow> ndarray \<Rightarrow> ndarray \<Rightarrow> ndarray \<Rightarrow> dtype \<Rightarrow> ndarray \<Rightarrow> ndarray \<Rightarrow> ndarray \<Rightarrow>
   HuffmanCoding \<Rightarrow> 'f npz" where
  "written m qt dcv dcc dt i s sh h =
     [(''ijk_to_ras'', Mat m),
      (''quantization_block'', Arr qt),
      (''dc_rle_values'', Arr dcv),
      (''dc_rle_counts'', Arr dcc),
      (''dtype'', Empty0 dt),
      (''intercept'', Arr i),
      (''slope'', Arr s),
      (''shape'', Arr sh),
      (''huffman_eof_symbol'', Arr (eof_symbol h)),
      (''huffman_symbols_values'', Arr (symbols_values h)),
      (''huffman_symbols_counts'', Arr (symbols_counts h)),
      (''huffman_bitsizes'', Arr (bitsizes h)),
      (''huffman_values'', Arr (code_values h)),
      (''huffman_data'', Arr (data h))]"

section \<open>Properties\<close>

subsection \<open>Sequencing and the written container\<close>

lemma and_then_Inr_iff:
  "and_then r f = Inr y \<longleftrightarrow> (\<exists>x. r = Inr x \<and> f x = Inr y)"
  by (cases r) (simp_all add: and_then_def)

lemma and_then_Inr [simp]: "and_then (Inr x) f = f x"
  by (simp add: and_then_def)

lemma and_then_Inl [simp]: "and_then (Inl e) f = Inl e"
  by (simp add: and_then_def)

lemma save_dict_Inr:
  assumes "save_dict M array T bs q = Inr d"
  obtains qt i mx dcv dcc acv acc h dmin where
     "get_quantization_table M [bs, bs, bs] q = Inr qt"
     "array_min array = Inr i" "array_max array = Inr mx"
     "encode_array M array qt = Inr (dcv, dcc, acv, acc)"
     "from_rle M acv acc = Inr h"
     "to_min_scalar_type M dcv = Inr dmin"
     "d = written (take 3 T) qt dmin dcc (dtype array) i (scalar_sub mx i)
            (uint16_array (shape array)) h"
proof -
  from assms obtain qt where 1: "get_quantization_table M [bs, bs, bs] q = Inr qt"
    unfolding save_dict_def by (auto simp: and_then_Inr_iff)
  from assms 1 obtain i where 2: "array_min array = Inr i"
    unfolding save_dict_def by (auto simp: and_then_Inr_iff)
  from assms 1 2 obtain mx where 3: "array_max array = Inr mx"
    unfolding save_dict_def by (auto simp: and_then_Inr_iff)
  from assms 1 2 3 obtain e where 4: "encode_array M array qt = Inr e"
    unfolding save_dict_def by (auto simp: and_then_Inr_iff)
  obtain dcv dcc acv acc where e: "e = (dcv, dcc, acv, acc)"
    by (cases e) auto
  from assms 1 2 3 4 e obtain h where 5: "from_rle M acv acc = Inr h"
    unfolding save_dict_def by (auto simp: and_then_Inr_iff)
  from assms 1 2 3 4 e 5 obtain dmin where 6: "to_min_scalar_type M dcv = Inr dmin"
    unfolding save_dict_def by (auto simp: and_then_Inr_iff)
  from assms 1 2 3 4 e 5 6
  have "d = written (take 3 T) qt dmin dcc (dtype array) i (scalar_sub mx i)
            (uint16_array (shape array)) h"
    unfolding save_dict_def written_def by simp
  with 1 2 3 4 e 5 6 show thesis
    using that by blast
qed

lemma save_jvol_Inr:
  "save_jvol M array T p bs q fs = (Inr u, fs') \<longleftrightarrow>
     (\<exists>d. save_dict M array T bs q = Inr d \<and> fs' = fs(p \<mapsto> Npz d))"
  by (auto simp: save_jvol_def split: sum.splits)

lemma getitem_written:
  "getitem (written m qt dcv dcc dt i s sh h) ''ijk_to_ras'' = Inr (Mat m)"
  "getitem (written m qt dcv dcc dt i s sh h) ''quantization_block'' = Inr (Arr qt)"
  "getitem (written m qt dcv dcc dt i s sh h) ''dc_rle_values'' = Inr (Arr dcv)"
  "getitem (written m qt dcv dcc dt i s sh h) ''dc_rle_counts'' = Inr (Arr dcc)"
  "getitem (written m qt dcv dcc dt i s sh h) ''dtype'' = Inr (Empty0 dt)"
  "getitem (written m qt dcv dcc dt i s sh h) ''intercept'' = Inr (Arr i)"
  "getitem (written m qt dcv dcc dt i s sh h) ''slope'' = Inr (Arr s)"
  "getitem (written m qt dcv dcc dt i s sh h) ''shape'' = Inr (Arr sh)"
  "getitem (written m qt dcv dcc dt i s sh h) ''huffman_eof_symbol'' = Inr (Arr (eof_symbol h))"
  "getitem (written m qt dcv dcc dt i s sh h) ''huffman_symbols_values'' = Inr (Arr (symbols_values h))"
  "getitem (written m qt dcv dcc dt i s sh h) ''huffman_symbols_counts'' = Inr (Arr (symbols_counts h))"
  "getitem (written m qt dcv dcc dt i s sh h) ''huffman_bitsizes'' = Inr (Arr (bitsizes h))"
  "getitem (written m qt dcv dcc dt i s sh h) ''huffman_values'' = Inr (Arr (code_values h))"
  "getitem (written m qt dcv dcc dt i s sh h) ''huffman_data'' = Inr (Arr (data h))"
  by (simp_all add: getitem_def written_def)

lemma load_huffman_written:
  "load_huffman (written m qt dcv dcc dt i s sh h) = Inr h"
  by (simp add: load_huffman_def get_array_def getitem_written)

lemma open_jvol_written:
  assumes m: "list_all (\<lambda>r. length r = 4) m"
  shows "open_jvol M p (fs(p \<mapsto> Npz (written m qt dcv dcc dt i s sh h))) =
           and_then (decode_array M dcv dcc qt sh i s dt h)
             (\<lambda>a. Inr (a, m @ [[0, 0, 0, 1]]))"
proof -
  have f: "fill_ijk_to_ras m = Inr (m @ [[0, 0, 0, 1]])"
    using m by (simp add: fill_ijk_to_ras_def eval_nat_numeral)
  show ?thesis
    unfolding open_jvol_def
    by (simp add: np_load_def load_huffman_written get_array_def get_matrix_def get_dtype_def
          getitem_written f)
qed


subsection \<open>The affine transform\<close>

lemma take3_complete:
  assumes "length T = 4" "T ! 3 = r"
  shows "take 3 T @ [r] = T"
proof -
  have "take (Suc 3) T = take 3 T @ [T ! 3]"
    using assms by (intro take_Suc_conv_app_nth) simp
  moreover have "take (Suc 3) T = T"
    using assms by simp
  ultimately show ?thesis
    using assms by simp
qed

text \<open>
  Claim C5. For every matrix \<open>m\<close> of three rows and four columns, \<open>fill_ijk_to_ras m\<close>
  is the matrix of four rows whose first three rows are \<open>m\<close> and whose last row is
  \<open>[0, 0, 0, 1]\<close>. Consequently, for every transform \<open>T\<close> of four rows and four
  columns whose last row is \<open>[0, 0, 0, 1]\<close>: whenever \<open>save_jvol\<close> has stored \<open>T\<close> and
  \<open>open_jvol\<close> returns from the file written, the transform it returns is \<open>T\<close>.
\<close>

theorem transform_round_trip:
  fixes T :: "'f::{zero,one} list list" and m :: "'f list list"
  assumes "length m = 3" and "list_all (\<lambda>r. length r = 4) m"
    and "length T = 4" and "list_all (\<lambda>r. length r = 4) T" and "T ! 3 = [0, 0, 0, 1]"
  shows "fill_ijk_to_ras m = Inr (m @ [[0, 0, 0, 1]]) \<and>
         take 3 (m @ [[0, 0, 0, 1]]) = m \<and>
         (\<forall>M array p bs q fs fs' a T'.
            save_jvol M array T p bs q fs = (Inr (), fs') \<and> open_jvol M p fs' = Inr (a, T')
            \<longrightarrow> T' = T)"
proof (intro conjI allI impI)
  show "fill_ijk_to_ras m = Inr (m @ [[0, 0, 0, 1]])"
    using assms(2) by (simp add: fill_ijk_to_ras_def eval_nat_numeral)
  show "take 3 (m @ [[0, 0, 0, 1]]) = m"
    using assms(1) by simp
next
  fix M :: "'f collaborators" and array p bs q fs fs' a T'
  assume h: "save_jvol M array T p bs q fs = (Inr (), fs') \<and> open_jvol M p fs' = Inr (a, T')"
  then obtain d where d: "save_dict M array T bs q = Inr d" and fs': "fs' = fs(p \<mapsto> Npz d)"
    unfolding save_jvol_Inr by blast
  have rows: "list_all (\<lambda>r. length r = 4) (take 3 T)"
    using assms(4) by (auto simp: list_all_iff dest: in_set_takeD)
  from d obtain qt dmin dcc i s h' where
    w: "d = written (take 3 T) qt dmin dcc (dtype array) i s (uint16_array (shape array)) h'"
    by (rule save_dict_Inr)
  have "open_jvol M p fs' =
          and_then (decode_array M dmin dcc qt (uint16_array (shape array)) i s (dtype array) h')
            (\<lambda>a. Inr (a, take 3 T @ [[0, 0, 0, 1]]))"
    unfolding fs' w by (rule open_jvol_written [OF rows])
  with h have "T' = take 3 T @ [[0, 0, 0, 1]]"
    by (auto simp: and_then_Inr_iff)
  then show "T' = T"
    using take3_complete [OF assms(3) assms(5)] by simp
qed

theorem transform_round_trip_witness:
  "fill_ijk_to_ras (take 3 identity_transform) = Inr identity_transform \<and>
   fst (save_jvol flat_collaborators example_volume identity_transform [''scan.jvol''] 4 60
          no_files) = Inr () \<and>
   map_sum id snd
     (open_jvol flat_collaborators [''scan.jvol'']
        (snd (save_jvol flat_collaborators example_volume identity_transform [''scan.jvol'']
                4 60 no_files))) = Inr identity_transform"
proof -
  have m: "length (take 3 identity_transform) = 3"
      "list_all (\<lambda>r. length r = 4) (take 3 identity_transform)"
    by (simp_all add: identity_transform_def)
  have T: "length identity_transform = 4"
      "list_all (\<lambda>r. length r = 4) identity_transform"
      "identity_transform ! 3 = [0, 0, 0, 1]"
    by (simp_all add: identity_transform_def)
  have c: "take 3 identity_transform @ [[0, 0, 0, 1]] = identity_transform"
    by (simp add: identity_transform_def)
  have "fill_ijk_to_ras (take 3 identity_transform) = Inr identity_transform"
    using transform_round_trip [OF m T] c by simp
  moreover have "fst (save_jvol flat_collaborators example_volume identity_transform
      [''scan.jvol''] 4 60 no_files) = Inr ()"
    by code_simp
  moreover have "map_sum id snd
     (open_jvol flat_collaborators [''scan.jvol'']
        (snd (save_jvol flat_collaborators example_volume identity_transform [''scan.jvol'']
                4 60 no_files))) = Inr identity_transform"
    by code_simp
  ultimately show ?thesis
    by blast
qed

subsection \<open>Dispatch\<close>

text \<open>
  Claim C6. \<open>open_image\<close> and \<open>save_image\<close> dispatch on the suffix of the path alone.
  For a path whose suffix is \<open>.jvol\<close>, \<open>open_image\<close> is \<open>open_jvol\<close> and \<open>save_image\<close>
  is the call of \<open>save_jvol\<close> with the keyword arguments forwarded; for any other
  suffix they are \<open>open_itk_image\<close> and \<open>save_itk_image\<close>.
\<close>

theorem extension_dispatch:
  "(suffix p = ''.jvol'' \<longrightarrow>
      open_image M p fs = open_jvol M p fs \<and>
      save_image M array T p kw fs = call_save_jvol M array T p kw fs \<and>
      save_image M array T p [(''block_size'', b), (''quality'', q)] fs =
        save_jvol M array T p b q fs) \<and>
   (suffix p \<noteq> ''.jvol'' \<longrightarrow>
      open_image M p fs = open_itk_image M p fs \<and>
      save_image M array T p kw fs = save_itk_image M array T p fs)"
  by (simp add: open_image_def save_image_def call_save_jvol_def)

theorem extension_dispatch_witness:
  "suffix [''data'', ''scan.jvol''] = ''.jvol'' \<and>
   open_image flat_collaborators [''data'', ''scan.jvol''] no_files =
     open_jvol flat_collaborators [''data'', ''scan.jvol''] no_files \<and>
   save_image flat_collaborators example_volume identity_transform [''data'', ''scan.jvol'']
       [(''block_size'', 2), (''quality'', 90)] no_files =
     save_jvol flat_collaborators example_volume identity_transform [''data'', ''scan.jvol'']
       2 90 no_files \<and>
   suffix [''data'', ''scan.nii.gz''] = ''.gz'' \<and>
   open_image flat_collaborators [''data'', ''scan.nii.gz''] no_files =
     open_itk_image flat_collaborators [''data'', ''scan.nii.gz''] no_files \<and>
   save_image flat_collaborators example_volume identity_transform [''data'', ''scan.nii.gz'']
       [(''quality'', 90)] no_files =
     save_itk_image flat_collaborators example_volume identity_transform
       [''data'', ''scan.nii.gz''] no_files"
proof -
  have a: "suffix [''data'', ''scan.jvol''] = ''.jvol''"
    by code_simp
  have b: "suffix [''data'', ''scan.nii.gz''] = ''.gz''"
    by code_simp
  have b': "suffix [''data'', ''scan.nii.gz''] \<noteq> ''.jvol''"
    unfolding b by simp
  note j = extension_dispatch [of "[''data'', ''scan.jvol'']" flat_collaborators no_files
        example_volume identity_transform "[(''block_size'', 2), (''quality'', 90)]" 2 90]
  note k = extension_dispatch [of "[''data'', ''scan.nii.gz'']" flat_collaborators no_files
        example_volume identity_transform "[(''quality'', 90)]" 2 90]
  from j a have "open_image flat_collaborators [''data'', ''scan.jvol''] no_files =
     open_jvol flat_collaborators [''data'', ''scan.jvol''] no_files"
    by blast
  moreover from j a have "save_image flat_collaborators example_volume identity_transform
       [''data'', ''scan.jvol''] [(''block_size'', 2), (''quality'', 90)] no_files =
     save_jvol flat_collaborators example_volume identity_transform [''data'', ''scan.jvol'']
       2 90 no_files"
    by blast
  moreover from k b' have "open_image flat_collaborators [''data'', ''scan.nii.gz''] no_files =
     open_itk_image flat_collaborators [''data'', ''scan.nii.gz''] no_files"
    by blast
  moreover from k b' have "save_image flat_collaborators example_volume identity_transform
       [''data'', ''scan.nii.gz''] [(''quality'', 90)] no_files =
     save_itk_image flat_collaborators example_volume identity_transform
       [''data'', ''scan.nii.gz''] no_files"
    by blast
  ultimately show ?thesis
    using a b by blast
qed

text \<open>
  Claim C9. For every path whose suffix is not \<open>.jvol\<close>, \<open>save_image\<close> discards the
  keyword arguments: its outcome and the file system it leaves are those of
  \<open>save_itk_image\<close> on the array, the transform and the path, the same for every
  choice of keywords, and no keyword raises an error.
\<close>

theorem itk_ignores_keywords:
  assumes "suffix p \<noteq> ''.jvol''"
  shows "save_image M array T p kw fs = save_image M array T p kw' fs \<and>
         save_image M array T p kw fs = save_itk_image M array T p fs"
  using assms by (simp add: save_image_def)

theorem itk_ignores_keywords_witness:
  "suffix [''scan.nrrd''] = ''.nrrd'' \<and>
   save_image flat_collaborators example_volume identity_transform [''scan.nrrd'']
       [(''block_size'', 0), (''quality'', 1000), (''colour'', 7)] no_files =
     save_image flat_collaborators example_volume identity_transform [''scan.nrrd''] []
       no_files \<and>
   fst (save_image flat_collaborators example_volume identity_transform [''scan.nrrd'']
       [(''block_size'', 0), (''quality'', 1000), (''colour'', 7)] no_files) = Inr ()"
proof -
  have a: "suffix [''scan.nrrd''] = ''.nrrd''"
    by code_simp
  have a': "suffix [''scan.nrrd''] \<noteq> ''.jvol''"
    unfolding a by simp
  have i: "fst (save_itk_image flat_collaborators example_volume identity_transform
          [''scan.nrrd''] no_files) = Inr ()"
    by (simp add: flat_collaborators_def spec_collaborators_def)
  note k = itk_ignores_keywords [OF a', of flat_collaborators example_volume
        identity_transform "[(''block_size'', 0), (''quality'', 1000), (''colour'', 7)]"
        no_files "[]"]
  from k have e: "save_image flat_collaborators example_volume identity_transform
       [''scan.nrrd''] [(''block_size'', 0), (''quality'', 1000), (''colour'', 7)] no_files =
     save_itk_image flat_collaborators example_volume identity_transform [''scan.nrrd'']
       no_files"
    by blast
  have "fst (save_image flat_collaborators example_volume identity_transform [''scan.nrrd'']
       [(''block_size'', 0), (''quality'', 1000), (''colour'', 7)] no_files) = Inr ()"
    unfolding e by (rule i)
  with a k show ?thesis
    by blast
qed

subsection \<open>The parameters of the save entry point\<close>



subsection \<open>The stored shape\<close>





subsection \<open>The names of the Huffman fields\<close>




subsection \<open>Narrowing of the DC run lengths\<close>

text \<open>
  Of the two DC run-length arrays that \<open>encode_array\<close> returns, \<open>save_jvol\<close> passes
  the values through \<open>to_min_scalar_type\<close> and stores the counts as they are.
\<close>

lemma dc_run_lengths_stored:
  assumes "save_dict M array T bs q = Inr d"
  shows "\<exists>qt dcv dcc acv acc dmin.
           encode_array M array qt = Inr (dcv, dcc, acv, acc) \<and>
           to_min_scalar_type M dcv = Inr dmin \<and>
           getitem d (key_value DC_RLE_VALUES) = Inr (Arr dmin) \<and>
           getitem d (key_value DC_RLE_COUNTS) = Inr (Arr dcc)"
  using assms
proof (rule save_dict_Inr)
  fix qt i mx dcv dcc acv acc h dmin
  assume "encode_array M array qt = Inr (dcv, dcc, acv, acc)"
    and "to_min_scalar_type M dcv = Inr dmin"
    and "d = written (take 3 T) qt dmin dcc (dtype array) i (scalar_sub mx i)
            (uint16_array (shape array)) h"
  then show ?thesis
    by (intro exI conjI) (simp_all add: getitem_written)
qed

text \<open>
  Claim C3 says that both arrays are stored with the narrowest integer type. On the
  example volume the counts are the single count 1: \<open>save_jvol\<close> stores it with the
  64-bit type of the encoder, where 8 bits would do; the values next to it are
  narrowed to 8 bits.
\<close>

theorem dc_counts_not_narrowed:
  "getitem (projr (save_dict flat_collaborators example_volume identity_transform 4 60))
     (key_value DC_RLE_VALUES) = Inr (Arr \<lparr>shape = [1], dtype = Int8, elements = [- 128]\<rparr>) \<and>
   getitem (projr (save_dict flat_collaborators example_volume identity_transform 4 60))
     (key_value DC_RLE_COUNTS) = Inr (Arr \<lparr>shape = [1], dtype = Int64, elements = [1]\<rparr>) \<and>
   narrowest Int64 [1] = UInt8"
  by code_simp

subsection \<open>The rescale parameters\<close>

lemma wrap_representable:
  assumes "representable dt v"
  shows "wrap dt v = v"
  using assms
  by (cases dt) (simp_all add: representable_def dtype_min_def dtype_max_def wrap_def)

lemma rescale_parameters_stored:
  assumes "save_dict M array T bs q = Inr d"
  shows "elements array \<noteq> [] \<and>
         getitem d (key_value INTERCEPT) = Inr (Arr (scalar (dtype array) (Min (set (elements array))))) \<and>
         getitem d (key_value SLOPE) =
           Inr (Arr (scalar (dtype array)
             (wrap (dtype array) (Max (set (elements array)) - Min (set (elements array))))))"
  using assms
proof (rule save_dict_Inr)
  fix qt i mx dcv dcc acv acc h dmin
  assume i: "array_min array = Inr i" and mx: "array_max array = Inr mx"
    and d: "d = written (take 3 T) qt dmin dcc (dtype array) i (scalar_sub mx i)
            (uint16_array (shape array)) h"
  from i have ne: "elements array \<noteq> []"
    by (auto simp: array_min_def split: if_splits)
  from i mx ne have "i = scalar (dtype array) (Min (set (elements array)))"
      "mx = scalar (dtype array) (Max (set (elements array)))"
    by (simp_all add: array_min_def array_max_def)
  then show ?thesis
    using ne unfolding d by (simp add: getitem_written scalar_sub_def scalar_def)
qed

text \<open>
  Claim C7 says that the stored slope is the maximum minus the minimum of the array.
  The difference is taken in the element type of the array, so by
  \<open>rescale_parameters_stored\<close> and \<open>wrap_representable\<close> it is that number when the
  element type can represent it. The example volume has the 8-bit signed samples
  \<open>-128\<close> and \<open>127\<close>: their difference is 255, and the slope stored is \<open>-1\<close>.
\<close>

theorem slope_wraps_around:
  "well_formed example_volume \<and>
   Max (set (elements example_volume)) - Min (set (elements example_volume)) = 255 \<and>
   getitem (projr (save_dict flat_collaborators example_volume identity_transform 4 60))
     (key_value INTERCEPT) = Inr (Arr \<lparr>shape = [], dtype = Int8, elements = [- 128]\<rparr>) \<and>
   getitem (projr (save_dict flat_collaborators example_volume identity_transform 4 60))
     (key_value SLOPE) = Inr (Arr \<lparr>shape = [], dtype = Int8, elements = [- 1]\<rparr>)"
  by code_simp

subsection \<open>The codec of the specification\<close>











text \<open>
  Claim C4. With the quantisation table of the specification, a call of \<open>save_jvol\<close>
  with a quality below 1 or above 100, or with a block size that is not positive,
  fails with a usage error before anything is written. For any collaborators, a call
  of \<open>save_jvol\<close> that fails leaves the file system as it was: the file is opened
  only when the dictionary is complete.
\<close>

theorem invalid_parameters_write_nothing:
  "(quality < 1 \<or> 100 < quality \<or> block_size \<le> 0 \<longrightarrow>
      save_jvol (spec_collaborators D r w) array T p block_size quality fs =
        (Inl UsageError, fs)) \<and>
   (\<forall>e. fst (save_jvol M array T p block_size quality fs) = Inl e \<longrightarrow>
      snd (save_jvol M array T p block_size quality fs) = fs)"
proof (intro conjI impI allI)
  assume "quality < 1 \<or> 100 < quality \<or> block_size \<le> 0"
  then have "spec_get_quantization_table D [block_size, block_size, block_size] quality =
      Inl UsageError"
    by (auto simp: spec_get_quantization_table_def)
  then show "save_jvol (spec_collaborators D r w) array T p block_size quality fs =
        (Inl UsageError, fs)"
    by (simp add: save_jvol_def save_dict_def spec_collaborators_def)
next
  fix e
  assume "fst (save_jvol M array T p block_size quality fs) = Inl e"
  then show "snd (save_jvol M array T p block_size quality fs) = fs"
    by (simp add: save_jvol_def split: sum.splits)
qed

theorem invalid_parameters_write_nothing_witness:
  "save_jvol flat_collaborators example_volume identity_transform [''scan.jvol''] 4 0 no_files =
     (Inl UsageError, no_files) \<and>
   save_jvol flat_collaborators example_volume identity_transform [''scan.jvol''] 4 101 no_files =
     (Inl UsageError, no_files) \<and>
   save_jvol flat_collaborators example_volume identity_transform [''scan.jvol''] 0 60 no_files =
     (Inl UsageError, no_files) \<and>
   save_jvol flat_collaborators example_volume identity_transform [''scan.jvol''] (- 2) 60 no_files =
     (Inl UsageError, no_files) \<and>
   snd (save_jvol flat_collaborators empty_volume identity_transform [''scan.jvol''] 4 60 no_files) =
     no_files"
proof -
  let ?r = "\<lambda>(p :: path) (fs :: int filesystem). Inl FileNotFoundError :: error + ndarray \<times> int list list"
  let ?w = "\<lambda>(a :: ndarray) (t :: int list list) (p :: path) (fs :: int filesystem).
      (Inr () :: error + unit, fs(p \<mapsto> Foreign ''itk''))"
  note i = invalid_parameters_write_nothing [of _ _ flat_details ?r ?w example_volume
      identity_transform "[''scan.jvol'']" no_files flat_collaborators]
  have 1: "save_jvol flat_collaborators example_volume identity_transform [''scan.jvol''] 4 0
      no_files = (Inl UsageError, no_files)"
    using i [of 0 4] unfolding flat_collaborators_def by simp
  have 2: "save_jvol flat_collaborators example_volume identity_transform [''scan.jvol''] 4 101
      no_files = (Inl UsageError, no_files)"
    using i [of 101 4] unfolding flat_collaborators_def by simp
  have 3: "save_jvol flat_collaborators example_volume identity_transform [''scan.jvol''] 0 60
      no_files = (Inl UsageError, no_files)"
    using i [of 60 0] unfolding flat_collaborators_def by simp
  have 4: "save_jvol flat_collaborators example_volume identity_transform [''scan.jvol''] (- 2)
      60 no_files = (Inl UsageError, no_files)"
    using i [of 60 "- 2"] unfolding flat_collaborators_def by simp
  have "fst (save_jvol flat_collaborators empty_volume identity_transform [''scan.jvol''] 4 60
      no_files) = Inl ValueError"
    by code_simp
  with invalid_parameters_write_nothing [of 60 4 flat_details ?r ?w empty_volume
      identity_transform "[''scan.jvol'']" no_files flat_collaborators]
  have 5: "snd (save_jvol flat_collaborators empty_volume identity_transform [''scan.jvol'']
      4 60 no_files) = no_files"
    by blast
  from 1 2 3 4 5 show ?thesis by blast
qed




end
